theory Spec2Isabelle
  imports
    Complex_Main
    "HOL-Library.Char_ord"
    "HOL-Library.List_Lexorder"
    "HOL-Library.Product_Lexorder"
begin

section \<open>Values of a numeric data-frame column\<close>

text \<open>
  The KPI columns that \<open>pd.read_sql\<close> returns are floating-point columns: a cell is a
  number, or NaN where the query produced NULL (the \<open>NULLIF\<close> guards of the query do).
  A number is read as the real it denotes, and a literal of the source (\<open>0.1\<close>, \<open>2.5\<close>)
  as the decimal it is written as. Python compares NaN with anything to \<open>False\<close>, for
  each of \<open><\<close>, \<open><=\<close>, \<open>>\<close>, \<open>>=\<close>.
\<close>

datatype pyfloat = Num real | NaN

fun py_gt :: "pyfloat \<Rightarrow> real \<Rightarrow> bool" where
  "py_gt (Num x) t = (x > t)"
| "py_gt NaN t = False"

fun py_ge :: "pyfloat \<Rightarrow> real \<Rightarrow> bool" where
  "py_ge (Num x) t = (x \<ge> t)"
| "py_ge NaN t = False"

fun py_lt :: "pyfloat \<Rightarrow> real \<Rightarrow> bool" where
  "py_lt (Num x) t = (x < t)"
| "py_lt NaN t = False"

fun py_le :: "pyfloat \<Rightarrow> real \<Rightarrow> bool" where
  "py_le (Num x) t = (x \<le> t)"
| "py_le NaN t = False"


section \<open>The traffic-light classifier (monthly\_performance(kpis).py)\<close>

text \<open>\<open>traffic_light(val, kpi)\<close>, lines 28 to 45, branch for branch.\<close>

definition traffic_light :: "pyfloat \<Rightarrow> string \<Rightarrow> string" where
  "traffic_light val kpi =
     (if kpi = ''average_stock_level'' then
        (if py_gt val 100 then ''green''
         else if py_ge val 70 then ''yellow''
         else ''red'')
      else if kpi = ''stockout_rate'' then
        (if py_lt val 0.1 then ''green''
         else if py_le val 0.3 then ''yellow''
         else ''red'')
      else if kpi = ''inventory_turnover'' then
        (if py_gt val 2.5 then ''green''
         else if py_ge val 1.5 then ''yellow''
         else ''red'')
      else if kpi = ''sell_through_rate'' then
        (if py_gt val 70 then ''green''
         else if py_ge val 50 then ''yellow''
         else ''red'')
      else ''gray'')"

text \<open>Line 47: the KPIs the dashboard plots.\<close>

definition kpi_list :: "string list" where
  "kpi_list =
     [''average_stock_level'', ''stockout_rate'', ''inventory_turnover'', ''sell_through_rate'']"

text \<open>
  The threshold table as the specification tabulates it (green, yellow, red per KPI, the
  yellow band closed at both ends), to be compared with \<open>traffic_light\<close>. No other
  label has a band.
\<close>

definition spec_band :: "string \<Rightarrow> string \<Rightarrow> real \<Rightarrow> bool" where
  "spec_band kpi cat v =
     (if kpi = ''average_stock_level'' then
        (if cat = ''green'' then v > 100
         else if cat = ''yellow'' then 70 \<le> v \<and> v \<le> 100
         else if cat = ''red'' then v < 70
         else False)
      else if kpi = ''stockout_rate'' then
        (if cat = ''green'' then v < 0.10
         else if cat = ''yellow'' then 0.10 \<le> v \<and> v \<le> 0.30
         else if cat = ''red'' then v > 0.30
         else False)
      else if kpi = ''inventory_turnover'' then
        (if cat = ''green'' then v > 2.5
         else if cat = ''yellow'' then 1.5 \<le> v \<and> v \<le> 2.5
         else if cat = ''red'' then v < 1.5
         else False)
      else if kpi = ''sell_through_rate'' then
        (if cat = ''green'' then v > 70
         else if cat = ''yellow'' then 50 \<le> v \<and> v \<le> 70
         else if cat = ''red'' then v < 50
         else False)
      else False)"

text \<open>The ordinal rank of a label: green above yellow above red.\<close>

definition rank :: "string \<Rightarrow> nat" where
  "rank cat = (if cat = ''green'' then 2 else if cat = ''yellow'' then 1 else 0)"


section \<open>Properties of the traffic-light classifier\<close>

lemma kpi_list_iff:
  "kpi \<in> set kpi_list \<longleftrightarrow>
     kpi = ''average_stock_level'' \<or> kpi = ''stockout_rate'' \<or>
     kpi = ''inventory_turnover'' \<or> kpi = ''sell_through_rate''"
  by (simp add: kpi_list_def)

text \<open>Each KPI's branch of the classifier, against the tabulated bands.\<close>

lemma band_average_stock_level:
  "(traffic_light (Num v) ''average_stock_level'' = cat) =
     spec_band ''average_stock_level'' cat v"
  by (auto simp: traffic_light_def spec_band_def)

lemma band_stockout_rate:
  "(traffic_light (Num v) ''stockout_rate'' = cat) = spec_band ''stockout_rate'' cat v"
  by (auto simp: traffic_light_def spec_band_def)

lemma band_inventory_turnover:
  "(traffic_light (Num v) ''inventory_turnover'' = cat) =
     spec_band ''inventory_turnover'' cat v"
  by (auto simp: traffic_light_def spec_band_def)

lemma band_sell_through_rate:
  "(traffic_light (Num v) ''sell_through_rate'' = cat) =
     spec_band ''sell_through_rate'' cat v"
  by (auto simp: traffic_light_def spec_band_def)

lemma traffic_light_band:
  assumes "kpi \<in> set kpi_list"
  shows "(traffic_light (Num v) kpi = cat) = spec_band kpi cat v"
proof -
  from assms have "kpi = ''average_stock_level'' \<or> kpi = ''stockout_rate'' \<or>
      kpi = ''inventory_turnover'' \<or> kpi = ''sell_through_rate''"
    by (simp only: kpi_list_iff)
  then show ?thesis
  proof (elim disjE)
    assume "kpi = ''average_stock_level''"
    then show ?thesis by (simp only: band_average_stock_level)
  next
    assume "kpi = ''stockout_rate''"
    then show ?thesis by (simp only: band_stockout_rate)
  next
    assume "kpi = ''inventory_turnover''"
    then show ?thesis by (simp only: band_inventory_turnover)
  next
    assume "kpi = ''sell_through_rate''"
    then show ?thesis by (simp only: band_sell_through_rate)
  qed
qed

lemma spec_band_labels:
  "spec_band kpi cat v \<Longrightarrow> cat \<in> {''green'', ''yellow'', ''red''}"
  by (simp add: spec_band_def split: if_splits)

text \<open>
  Claim C1. For each of the four recognised KPIs and every real value, \<open>traffic_light\<close>
  returns one of green, yellow, red; the label it returns is the one whose tabulated band
  holds the value, and exactly one band holds it: the three bands cover the real line
  and do not overlap.
\<close>

theorem traffic_light_partition:
  assumes "kpi \<in> set kpi_list"
  shows "traffic_light (Num v) kpi \<in> {''green'', ''yellow'', ''red''} \<and>
         (\<forall>cat. (traffic_light (Num v) kpi = cat) = spec_band kpi cat v) \<and>
         (\<exists>!cat. spec_band kpi cat v)"
proof -
  let ?t = "traffic_light (Num v) kpi"
  have band: "(?t = cat) = spec_band kpi cat v" for cat
    using assms by (rule traffic_light_band)
  have here: "spec_band kpi ?t v"
    by (rule iffD1 [OF band refl])
  have uniq: "\<exists>!cat. spec_band kpi cat v"
  proof (rule ex1I)
    show "spec_band kpi ?t v"
      by (rule here)
  next
    fix cat
    assume "spec_band kpi cat v"
    then have "?t = cat"
      by (rule iffD2 [OF band])
    then show "cat = ?t"
      by (rule sym)
  qed
  have lab: "?t \<in> {''green'', ''yellow'', ''red''}"
    using here by (rule spec_band_labels)
  show ?thesis
    by (intro conjI allI lab band uniq)
qed

theorem traffic_light_partition_witness:
  "''stockout_rate'' \<in> set kpi_list \<and>
   traffic_light (Num 0.2) ''stockout_rate'' = ''yellow'' \<and>
   spec_band ''stockout_rate'' ''yellow'' 0.2 \<and>
   (\<exists>!cat. spec_band ''stockout_rate'' cat 0.2)"
proof -
  have h: "''stockout_rate'' \<in> set kpi_list"
    by (simp add: kpi_list_def)
  have y: "traffic_light (Num 0.2) ''stockout_rate'' = ''yellow''"
    by (simp add: traffic_light_def)
  note p = traffic_light_partition [OF h, of "0.2"]
  have every: "\<forall>cat. (traffic_light (Num 0.2) ''stockout_rate'' = cat)
      = spec_band ''stockout_rate'' cat 0.2"
    by (rule conjunct1 [OF conjunct2 [OF p]])
  have b: "spec_band ''stockout_rate'' ''yellow'' 0.2"
    by (rule iffD1 [OF spec [OF every] y])
  have u: "\<exists>!cat. spec_band ''stockout_rate'' cat 0.2"
    by (rule conjunct2 [OF conjunct2 [OF p]])
  show ?thesis
    by (intro conjI h y b u)
qed

text \<open>
  Claim C2. A value on a boundary falls into the middle category: 70 for
  \<open>average_stock_level\<close>, 0.30 for \<open>stockout_rate\<close> and 50 for \<open>sell_through_rate\<close> are
  yellow, not red.
\<close>

theorem traffic_light_boundaries:
  "traffic_light (Num 70) ''average_stock_level'' = ''yellow'' \<and>
   traffic_light (Num 0.30) ''stockout_rate'' = ''yellow'' \<and>
   traffic_light (Num 50) ''sell_through_rate'' = ''yellow'' \<and>
   ''yellow'' \<noteq> ''red''"
  by (simp add: traffic_light_def)

text \<open>
  Claim C3, as amended. A KPI identifier outside the recognised list gets the neutral
  label gray, whatever the value (a number or NaN): the classifier has no failing branch
  and gives none of green, yellow, red there.
\<close>

theorem traffic_light_unrecognized:
  assumes "kpi \<notin> set kpi_list"
  shows "traffic_light val kpi = ''gray''"
proof -
  from assms have "kpi \<noteq> ''average_stock_level''" and "kpi \<noteq> ''stockout_rate''"
    and "kpi \<noteq> ''inventory_turnover''" and "kpi \<noteq> ''sell_through_rate''"
    by (simp_all only: kpi_list_iff de_Morgan_disj simp_thms)
  then show ?thesis
    by (simp only: traffic_light_def if_False)
qed

theorem traffic_light_unrecognized_witness:
  "''profit_margin'' \<notin> set kpi_list \<and> traffic_light NaN ''profit_margin'' = ''gray'' \<and>
   ''gray'' \<notin> {''green'', ''yellow'', ''red''}"
proof -
  have h: "''profit_margin'' \<notin> set kpi_list"
    by (simp add: kpi_list_def)
  from traffic_light_unrecognized [OF h, of NaN] h show ?thesis
    by simp
qed

text \<open>
  The claim as written fails for NaN with a recognised KPI: both comparisons are false
  and the \<open>else\<close> branch answers red, not gray.
\<close>

theorem traffic_light_nan_counterexample:
  "''average_stock_level'' \<in> set kpi_list \<and>
   traffic_light NaN ''average_stock_level'' = ''red'' \<and>
   traffic_light NaN ''average_stock_level'' \<noteq> ''gray''"
  by (simp add: traffic_light_def kpi_list_def)

text \<open>Monotonicity, KPI by KPI.\<close>

lemma mono_average_stock_level:
  "v1 \<le> v2 \<Longrightarrow> rank (traffic_light (Num v1) ''average_stock_level'')
      \<le> rank (traffic_light (Num v2) ''average_stock_level'')"
  by (simp add: traffic_light_def rank_def)

lemma mono_inventory_turnover:
  "v1 \<le> v2 \<Longrightarrow> rank (traffic_light (Num v1) ''inventory_turnover'')
      \<le> rank (traffic_light (Num v2) ''inventory_turnover'')"
  by (simp add: traffic_light_def rank_def)

lemma mono_sell_through_rate:
  "v1 \<le> v2 \<Longrightarrow> rank (traffic_light (Num v1) ''sell_through_rate'')
      \<le> rank (traffic_light (Num v2) ''sell_through_rate'')"
  by (simp add: traffic_light_def rank_def)

lemma antimono_stockout_rate:
  "v1 \<le> v2 \<Longrightarrow> rank (traffic_light (Num v2) ''stockout_rate'')
      \<le> rank (traffic_light (Num v1) ''stockout_rate'')"
  by (simp add: traffic_light_def rank_def)

text \<open>
  Claim C10. The classification is monotone in the value: for \<open>average_stock_level\<close>,
  \<open>inventory_turnover\<close> and \<open>sell_through_rate\<close> a larger value never ranks lower
  (green above yellow above red); for \<open>stockout_rate\<close> a larger value never ranks higher.
\<close>

theorem traffic_light_monotone:
  assumes "v1 \<le> v2"
  shows "rank (traffic_light (Num v1) ''average_stock_level'')
           \<le> rank (traffic_light (Num v2) ''average_stock_level'') \<and>
         rank (traffic_light (Num v1) ''inventory_turnover'')
           \<le> rank (traffic_light (Num v2) ''inventory_turnover'') \<and>
         rank (traffic_light (Num v1) ''sell_through_rate'')
           \<le> rank (traffic_light (Num v2) ''sell_through_rate'') \<and>
         rank (traffic_light (Num v2) ''stockout_rate'')
           \<le> rank (traffic_light (Num v1) ''stockout_rate'')"
  using assms
  by (simp only: mono_average_stock_level mono_inventory_turnover mono_sell_through_rate
      antimono_stockout_rate simp_thms)

theorem traffic_light_monotone_witness:
  "(2::real) \<le> 60 \<and>
   rank (traffic_light (Num 2) ''average_stock_level'')
     \<le> rank (traffic_light (Num 60) ''average_stock_level'') \<and>
   rank (traffic_light (Num 2) ''inventory_turnover'')
     \<le> rank (traffic_light (Num 60) ''inventory_turnover'') \<and>
   rank (traffic_light (Num 2) ''sell_through_rate'')
     \<le> rank (traffic_light (Num 60) ''sell_through_rate'') \<and>
   rank (traffic_light (Num 60) ''stockout_rate'')
     \<le> rank (traffic_light (Num 2) ''stockout_rate'') \<and>
   rank (traffic_light (Num 2) ''inventory_turnover'') = 1 \<and>
   rank (traffic_light (Num 60) ''inventory_turnover'') = 2"
proof -
  have h: "(2::real) \<le> 60"
    by simp
  have "rank (traffic_light (Num 2) ''inventory_turnover'') = 1"
    and "rank (traffic_light (Num 60) ''inventory_turnover'') = 2"
    by (simp_all add: traffic_light_def rank_def)
  with traffic_light_monotone [OF h] h show ?thesis
    by (simp only: simp_thms)
qed


section \<open>The ratio-based stock status (store\_vs\_product.py)\<close>

text \<open>
  A row of the query of lines 13 to 21: the two keys and the two integer measures.
  The keys are opaque and ordered (the pivot sorts them).
\<close>

record ('s, 'p) snapshot_row =
  store_id :: 's
  product_id :: 'p
  inventory_level :: int
  units_ordered :: int

text \<open>
  \<open>get_stock_status(row)\<close>, lines 28 to 36. The body compares and multiplies numbers
  and nothing else: no division, no lookup that can miss, so no branch raises and the
  model has no error value. \<open>units_ordered * 0.5\<close> is a float, compared as a real.
\<close>

definition get_stock_status :: "('s, 'p) snapshot_row \<Rightarrow> string" where
  "get_stock_status row =
     (if inventory_level row = 0 then ''Out of Stock''
      else if real_of_int (inventory_level row) < real_of_int (units_ordered row) * 0.5
        then ''Below Reorder''
      else if inventory_level row < units_ordered row then ''Near Reorder''
      else ''Adequate'')"

text \<open>Lines 41 to 44: the labels, their codes by position, and the code of a row.\<close>

definition status_labels :: "string list" where
  "status_labels = [''Out of Stock'', ''Below Reorder'', ''Near Reorder'', ''Adequate'']"

definition status_map :: "string \<rightharpoonup> nat" where
  "status_map =
     foldl (\<lambda>m (i, label). m(label \<mapsto> i)) Map.empty (enumerate 0 status_labels)"

definition Status_Code :: "('s, 'p) snapshot_row \<Rightarrow> nat option" where
  "Status_Code row = status_map (get_stock_status row)"

text \<open>
  A pivoted frame: the row keys, the column keys and the cell of each pair.
\<close>

record ('r, 'c, 'v) frame =
  index :: "'r list"
  columns :: "'c list"
  cell :: "'r \<Rightarrow> 'c \<Rightarrow> 'v"

text \<open>
  Lines 47 to 52, \<open>pivot_table(index="product_id", columns="store_id",
  values="Status_Code", aggfunc="min")\<close>: the rows are grouped by the pair of keys, the
  codes of a group (missing codes skipped) are aggregated by their minimum, the keys of
  each axis are the sorted distinct keys of the rows, and a pair with no code is NaN,
  here \<open>None\<close>.
\<close>

definition group_codes :: "('s, 'p) snapshot_row list \<Rightarrow> 'p \<Rightarrow> 's \<Rightarrow> nat list" where
  "group_codes df p s =
     List.map_filter Status_Code (filter (\<lambda>r. product_id r = p \<and> store_id r = s) df)"

definition agg_min :: "nat list \<Rightarrow> nat option" where
  "agg_min vs = (if vs = [] then None else Some (Min (set vs)))"

definition pivot_table_min ::
  "('s::linorder, 'p::linorder) snapshot_row list \<Rightarrow> ('p, 's, nat option) frame" where
  "pivot_table_min df =
     \<lparr> index = sort (remdups (map product_id df)),
       columns = sort (remdups (map store_id df)),
       cell = (\<lambda>p s. agg_min (group_codes df p s)) \<rparr>"

lemma status_map_values:
  "status_map ''Out of Stock'' = Some 0"
  "status_map ''Below Reorder'' = Some 1"
  "status_map ''Near Reorder'' = Some 2"
  "status_map ''Adequate'' = Some 3"
  by (simp_all add: status_map_def status_labels_def enumerate_eq_zip)

lemma Status_Code_eq:
  "Status_Code row =
     (if inventory_level row = 0 then Some 0
      else if real_of_int (inventory_level row) < real_of_int (units_ordered row) * 0.5
        then Some 1
      else if inventory_level row < units_ordered row then Some 2
      else Some 3)"
  by (simp add: Status_Code_def get_stock_status_def status_map_values)

lemma Status_Code_label:
  "\<exists>c. Status_Code row = Some c \<and> c < 4 \<and> status_labels ! c = get_stock_status row"
  by (simp add: Status_Code_eq get_stock_status_def status_labels_def)


lemma set_map_filter:
  "set (List.map_filter f xs) = {y. \<exists>x \<in> set xs. f x = Some y}"
  by (induction xs) (auto simp: map_filter_simps split: option.splits)

lemma set_group_codes:
  "set (group_codes df p s) =
     {c. \<exists>r \<in> set df. product_id r = p \<and> store_id r = s \<and> Status_Code r = Some c}"
  by (auto simp: group_codes_def set_map_filter)

lemma group_codes_nonempty:
  assumes "r \<in> set df" and "product_id r = p" and "store_id r = s"
  shows "group_codes df p s \<noteq> []"
proof -
  obtain c where "Status_Code r = Some c"
    using Status_Code_label [of r] by blast
  with assms have "c \<in> set (group_codes df p s)"
    unfolding set_group_codes by blast
  then show ?thesis
    by auto
qed

text \<open>
  Claim C4. A row whose \<open>inventory_level\<close> is 0 is \<open>Out of Stock\<close>, whatever
  \<open>units_ordered\<close> is.
\<close>

theorem out_of_stock_at_zero:
  assumes "inventory_level row = 0"
  shows "get_stock_status row = ''Out of Stock''"
  using assms by (simp add: get_stock_status_def)

theorem out_of_stock_at_zero_witness:
  "inventory_level \<lparr>store_id = 1::nat, product_id = 7::nat, inventory_level = 0,
      units_ordered = 0\<rparr> = 0 \<and>
   get_stock_status \<lparr>store_id = 1::nat, product_id = 7::nat, inventory_level = 0,
      units_ordered = 0\<rparr> = ''Out of Stock''"
  using out_of_stock_at_zero [of "\<lparr>store_id = 1::nat, product_id = 7::nat,
      inventory_level = 0, units_ordered = 0\<rparr>"]
  by simp

text \<open>
  Claim C5. A row with \<open>units_ordered = 0\<close> and a positive \<open>inventory_level\<close> is
  \<open>Adequate\<close>: the classifier divides nowhere, so it has a value on that row as on
  every row.
\<close>

theorem adequate_without_orders:
  assumes "units_ordered row = 0" and "inventory_level row > 0"
  shows "get_stock_status row = ''Adequate''"
  using assms by (simp add: get_stock_status_def)

theorem adequate_without_orders_witness:
  "units_ordered \<lparr>store_id = 1::nat, product_id = 7::nat, inventory_level = 25,
      units_ordered = 0\<rparr> = 0 \<and>
   inventory_level \<lparr>store_id = 1::nat, product_id = 7::nat, inventory_level = 25,
      units_ordered = 0\<rparr> > 0 \<and>
   get_stock_status \<lparr>store_id = 1::nat, product_id = 7::nat, inventory_level = 25,
      units_ordered = 0\<rparr> = ''Adequate''"
  using adequate_without_orders [of "\<lparr>store_id = 1::nat, product_id = 7::nat,
      inventory_level = 25, units_ordered = 0\<rparr>"]
  by simp

text \<open>
  Claim C6. The cell of a pair of keys that some row carries is the smallest code among
  the rows of that pair: it is the code of one of them, and no row of the pair has a
  smaller one, so the cell shows the worst status observed. In particular two rows of
  one pair, one \<open>Adequate\<close> (code 3) and one \<open>Out of Stock\<close> (code 0), give the cell
  code 0, which the labels read as \<open>Out of Stock\<close>.
\<close>

theorem pivot_min_worst_status:
  assumes "r0 \<in> set df" and "product_id r0 = p" and "store_id r0 = s"
  shows "\<exists>c. cell (pivot_table_min df) p s = Some c \<and>
           (\<exists>r \<in> set df. product_id r = p \<and> store_id r = s \<and> Status_Code r = Some c \<and>
              status_labels ! c = get_stock_status r) \<and>
           (\<forall>r \<in> set df. product_id r = p \<and> store_id r = s \<longrightarrow>
              (\<exists>c'. Status_Code r = Some c' \<and> c \<le> c')) \<and>
           (get_stock_status r0 = ''Out of Stock'' \<longrightarrow>
              c = 0 \<and> status_labels ! c = ''Out of Stock'')"
proof -
  let ?g = "group_codes df p s"
  let ?c = "Min (set ?g)"
  have ne: "?g \<noteq> []"
    using assms by (rule group_codes_nonempty)
  then have cell: "cell (pivot_table_min df) p s = Some ?c"
    by (simp add: pivot_table_min_def agg_min_def)
  have "?c \<in> set ?g"
    using ne by simp
  then obtain r where r: "r \<in> set df" "product_id r = p" "store_id r = s"
      "Status_Code r = Some ?c"
    unfolding set_group_codes by blast
  obtain c1 where c1: "Status_Code r = Some c1" "status_labels ! c1 = get_stock_status r"
    using Status_Code_label [of r] by blast
  with r have lab: "status_labels ! ?c = get_stock_status r"
    by simp
  have least: "\<exists>c'. Status_Code r' = Some c' \<and> ?c \<le> c'"
    if "r' \<in> set df" "product_id r' = p \<and> store_id r' = s" for r'
  proof -
    obtain c' where c': "Status_Code r' = Some c'"
      using Status_Code_label [of r'] by blast
    with that have "c' \<in> set ?g"
      unfolding set_group_codes by blast
    then have "?c \<le> c'"
      by simp
    with c' show ?thesis
      by blast
  qed
  have zero: "?c = 0 \<and> status_labels ! ?c = ''Out of Stock''"
    if "get_stock_status r0 = ''Out of Stock''"
  proof -
    from that have "Status_Code r0 = Some 0"
      by (simp add: Status_Code_def status_map_values)
    then have "\<exists>c'. Some 0 = Some c' \<and> ?c \<le> c'"
      using least [of r0] assms by simp
    then have "?c = 0"
      by simp
    then show ?thesis
      by (simp add: status_labels_def)
  qed
  show ?thesis
    using cell r lab least zero by blast
qed


theorem pivot_min_worst_status_witness:
  "\<lparr>store_id = 1::nat, product_id = 7::nat, inventory_level = 0, units_ordered = 10\<rparr>
     \<in> set [\<lparr>store_id = 1, product_id = 7, inventory_level = 30, units_ordered = 10\<rparr>,
             \<lparr>store_id = 1, product_id = 7, inventory_level = 0, units_ordered = 10\<rparr>] \<and>
   get_stock_status
     \<lparr>store_id = 1::nat, product_id = 7::nat, inventory_level = 30, units_ordered = 10\<rparr>
     = ''Adequate'' \<and>
   get_stock_status
     \<lparr>store_id = 1::nat, product_id = 7::nat, inventory_level = 0, units_ordered = 10\<rparr>
     = ''Out of Stock'' \<and>
   cell (pivot_table_min
      [\<lparr>store_id = 1::nat, product_id = 7::nat, inventory_level = 30, units_ordered = 10\<rparr>,
       \<lparr>store_id = 1, product_id = 7, inventory_level = 0, units_ordered = 10\<rparr>]) 7 1
     = Some 0 \<and>
   status_labels ! 0 = ''Out of Stock''"
proof -
  let ?r1 = "\<lparr>store_id = 1::nat, product_id = 7::nat, inventory_level = 30,
      units_ordered = 10\<rparr>"
  let ?r2 = "\<lparr>store_id = 1::nat, product_id = 7::nat, inventory_level = 0,
      units_ordered = 10\<rparr>"
  have a: "?r2 \<in> set [?r1, ?r2]"
    by simp
  have b: "product_id ?r2 = 7" and c: "store_id ?r2 = 1"
    by simp_all
  have g1: "get_stock_status ?r1 = ''Adequate''"
    by (simp add: get_stock_status_def)
  have g2: "get_stock_status ?r2 = ''Out of Stock''"
    by (simp add: get_stock_status_def)
  from pivot_min_worst_status [OF a b c] obtain k
    where k: "cell (pivot_table_min [?r1, ?r2]) 7 1 = Some k"
      and z: "get_stock_status ?r2 = ''Out of Stock'' \<longrightarrow>
        k = 0 \<and> status_labels ! k = ''Out of Stock''"
    by blast
  have "k = 0 \<and> status_labels ! k = ''Out of Stock''"
    by (rule mp [OF z g2])
  then have "k = 0"
    by (rule conjunct1)
  with k have k0: "cell (pivot_table_min [?r1, ?r2]) 7 1 = Some 0"
    by simp
  have l0: "status_labels ! 0 = ''Out of Stock''"
    by (simp add: status_labels_def)
  show ?thesis
    by (intro conjI a g1 g2 k0 l0)
qed

section \<open>Products per stock status and store (storeid\_numberofproducts\_stock.py)\<close>

text \<open>
  A row of the query of lines 12 to 42: a store, its region, a stock status and the
  number of products of the store in that status.
\<close>

record 's status_row =
  store_id :: 's
  region :: string
  stock_status :: string
  product_count :: int


















section \<open>The connection in a script run\<close>

text \<open>
  Every script has the same head (monthly\_performance(kpis).py, lines 6 to 25):
  \<^verbatim>\<open>
  conn = get_connection()
  if conn is None:
      print("Database connection failed.")
      exit(1)
  df = pd.read_sql(query, conn)
  conn.close()
  \<close>
  and then plots. A run is the sequence of its events. The database decides two things:
  whether \<open>pyodbc.connect\<close> succeeds, and whether the query does; \<open>pd.read_sql\<close> raises
  when it does not, nothing catches the exception, and the interpreter ends the process
  with status 1.
\<close>

datatype event =
  Acquire | Connect_Failed | Print string | Query | Query_Failed | Close | Render | Exit nat

datatype connection = Connection

record env =
  connect_ok :: bool
  query_ok :: bool

text \<open>
  \<open>get_connection()\<close> (db\_connection.py, lines 8 to 22): the connection, or \<open>None\<close>
  after printing the error that \<open>pyodbc.connect\<close> raised.
\<close>

definition get_connection :: "env \<Rightarrow> event list \<times> connection option" where
  "get_connection e =
     (if connect_ok e then ([Acquire], Some Connection)
      else ([Connect_Failed, Print ''Error connecting to database:''], None))"

text \<open>
  The scripts differ in what they say before \<open>exit\<close> when there is no connection
  (some say nothing) and in how many figures they show; monthly\_performance(kpis).py
  prints a message and shows two.
\<close>

record script =
  message :: "string option"
  figures :: nat

definition monthly_performance :: script where
  "monthly_performance = \<lparr> message = Some ''Database connection failed.'', figures = 2 \<rparr>"

definition run :: "script \<Rightarrow> env \<Rightarrow> event list" where
  "run sc e =
     (case get_connection e of
        (t, None) \<Rightarrow>
          t @ (case message sc of None \<Rightarrow> [] | Some m \<Rightarrow> [Print m]) @ [Exit 1]
      | (t, Some conn) \<Rightarrow>
          (if query_ok e
           then t @ [Query, Close] @ replicate (figures sc) Render @ [Exit 0]
           else t @ [Query, Query_Failed, Exit 1]))"

text \<open>
  The connection is released in a run when it is not open at any rendering step, at
  \<open>exit\<close>, or when the events end. The flag says whether it is open.
\<close>

fun released :: "bool \<Rightarrow> event list \<Rightarrow> bool" where
  "released opn [] = (\<not> opn)"
| "released opn (Acquire # t) = released True t"
| "released opn (Close # t) = released False t"
| "released opn (Render # t) = (\<not> opn \<and> released opn t)"
| "released opn (Exit n # t) = (\<not> opn \<and> released opn t)"
| "released opn (Connect_Failed # t) = released opn t"
| "released opn (Print m # t) = released opn t"
| "released opn (Query # t) = released opn t"
| "released opn (Query_Failed # t) = released opn t"

lemma released_renders:
  "released False (replicate n Render @ t) = released False t"
  by (induction n) simp_all

lemma count_renders:
  "count_list (replicate n Render) Acquire = 0"
  by (induction n) simp_all

lemma run_connect_failed:
  assumes "\<not> connect_ok e"
  shows "run sc e =
     [Connect_Failed, Print ''Error connecting to database:'']
       @ (case message sc of None \<Rightarrow> [] | Some m \<Rightarrow> [Print m]) @ [Exit 1]"
  using assms by (simp add: run_def get_connection_def)

lemma run_query_failed:
  assumes "connect_ok e" and "\<not> query_ok e"
  shows "run sc e = [Acquire, Query, Query_Failed, Exit 1]"
  using assms by (simp add: run_def get_connection_def)

lemma run_success:
  assumes "connect_ok e" and "query_ok e"
  shows "run sc e = [Acquire, Query, Close] @ replicate (figures sc) Render @ [Exit 0]"
  using assms by (simp add: run_def get_connection_def)

text \<open>
  Claim C9, as amended. A run acquires the connection once, as its first event, unless
  connecting fails, and then never. When the query succeeds the connection is closed
  before every rendering step and before the exit; when connecting fails there is no
  connection, and the run is released as well. A run that fails renders nothing and
  exits with status 1.
\<close>

theorem connection_scoped:
  "count_list (run sc e) Acquire = (if connect_ok e then 1 else 0) \<and>
   (connect_ok e \<longrightarrow> hd (run sc e) = Acquire) \<and>
   (\<not> connect_ok e \<or> query_ok e \<longrightarrow> released False (run sc e)) \<and>
   (\<not> (connect_ok e \<and> query_ok e) \<longrightarrow>
      Render \<notin> set (run sc e) \<and> last (run sc e) = Exit 1)"
proof (cases "connect_ok e")
  case False
  then show ?thesis
    by (cases "message sc") (simp_all add: run_connect_failed)
next
  case c: True
  show ?thesis
  proof (cases "query_ok e")
    case True
    with c show ?thesis
      by (simp add: run_success released_renders count_renders)
  next
    case False
    with c show ?thesis
      by (simp add: run_query_failed)
  qed
qed

theorem connection_scoped_witness:
  "run monthly_performance \<lparr>connect_ok = True, query_ok = True\<rparr>
     = [Acquire, Query, Close, Render, Render, Exit 0] \<and>
   count_list (run monthly_performance \<lparr>connect_ok = True, query_ok = True\<rparr>) Acquire = 1 \<and>
   released False (run monthly_performance \<lparr>connect_ok = True, query_ok = True\<rparr>) \<and>
   released False (run monthly_performance \<lparr>connect_ok = False, query_ok = True\<rparr>) \<and>
   last (run monthly_performance \<lparr>connect_ok = False, query_ok = True\<rparr>) = Exit 1"
  using connection_scoped [of monthly_performance "\<lparr>connect_ok = True, query_ok = True\<rparr>"]
    connection_scoped [of monthly_performance "\<lparr>connect_ok = False, query_ok = True\<rparr>"]
  by (simp add: run_def get_connection_def monthly_performance_def numeral_2_eq_2)

text \<open>
  The claim as written fails when the query raises: the run ends with the connection
  still open, \<open>conn.close()\<close> is never reached.
\<close>

theorem connection_leak_counterexample:
  "run monthly_performance \<lparr>connect_ok = True, query_ok = False\<rparr>
     = [Acquire, Query, Query_Failed, Exit 1] \<and>
   \<not> released False (run monthly_performance \<lparr>connect_ok = True, query_ok = False\<rparr>) \<and>
   Close \<notin> set (run monthly_performance \<lparr>connect_ok = True, query_ok = False\<rparr>)"
  by (simp add: run_def get_connection_def)


section \<open>Month labels and their order (monthly\_performance(kpis).py)\<close>

text \<open>
  \<open>Series.unique()\<close> keeps the distinct values in the order of their first appearance;
  \<open>sorted\<close> on strings is the lexicographic order of their characters, and \<open>xs[-3:]\<close>
  is the last three elements, or all of them when there are fewer.
\<close>

definition unique :: "'a list \<Rightarrow> 'a list" where
  "unique xs = rev (remdups (rev xs))"

text \<open>Line 52, \<open>months = sorted(df['month'].unique())\<close>, with the column as a list.\<close>

definition months :: "string list \<Rightarrow> string list" where
  "months col = sort (unique col)"

text \<open>Line 75, \<open>last3months = sorted(months)[-3:]\<close>.\<close>

definition last3months :: "string list \<Rightarrow> string list" where
  "last3months col = (let s = sort (months col) in drop (length s - 3) s)"

text \<open>
  The ordering the specification asks for: a label is parsed into a period value, the
  number of its month counted from year 0, and the labels are sorted by that value.
  The parser reads as \<open>strptime\<close> does with \<open>%Y-%m\<close> (the sibling scripts parse the
  column so): four digits, a dash, a month of one or two digits between 1 and 12.
\<close>

definition is_digit :: "char \<Rightarrow> bool" where
  "is_digit c = (CHR ''0'' \<le> c \<and> c \<le> CHR ''9'')"

definition digit_val :: "char \<Rightarrow> nat" where
  "digit_val c = of_char c - of_char CHR ''0''"

fun number_from :: "nat \<Rightarrow> string \<Rightarrow> nat" where
  "number_from n [] = n"
| "number_from n (c # cs) = number_from (10 * n + digit_val c) cs"

definition number :: "string \<Rightarrow> nat" where
  "number ds = number_from 0 ds"

definition spec_parse_period :: "string \<Rightarrow> nat option" where
  "spec_parse_period s =
     (let ys = take 4 s; ms = drop 5 s in
      if 6 \<le> length s \<and> length s \<le> 7 \<and> list_all is_digit ys \<and> s ! 4 = CHR ''-'' \<and>
         list_all is_digit ms \<and> 1 \<le> number ms \<and> number ms \<le> 12
      then Some (number ys * 12 + (number ms - 1))
      else None)"

definition spec_months :: "string list \<Rightarrow> string list option" where
  "spec_months col =
     (if list_all (\<lambda>s. spec_parse_period s \<noteq> None) col
      then Some (sort_key (\<lambda>s. the (spec_parse_period s)) (unique col))
      else None)"

definition spec_last3months :: "string list \<Rightarrow> string list option" where
  "spec_last3months col = map_option (\<lambda>ms. drop (length ms - 3) ms) (spec_months col)"

text \<open>
  What \<open>DATE_FORMAT(snapshot_date, '%Y-%m')\<close> of the query prints: a year of four digits,
  a dash and a month of two digits, zero-padded.
\<close>

definition zero_padded_month :: "string \<Rightarrow> bool" where
  "zero_padded_month s =
     (length s = 7 \<and> list_all is_digit (take 4 s) \<and> s ! 4 = CHR ''-'' \<and>
      list_all is_digit (drop 5 s) \<and> 1 \<le> number (drop 5 s) \<and> number (drop 5 s) \<le> 12)"

subsection \<open>Digits and the numbers they write\<close>

lemma is_digit_iff:
  "is_digit c \<longleftrightarrow> 48 \<le> (of_char c :: nat) \<and> (of_char c :: nat) \<le> 57"
  by (simp add: is_digit_def less_eq_char_def)

lemma digit_val_eq: "digit_val c = of_char c - 48"
  by (simp add: digit_val_def)

lemma digit_val_le: "is_digit c \<Longrightarrow> digit_val c \<le> 9"
  unfolding is_digit_iff digit_val_eq by linarith

lemma digit_less:
  assumes "is_digit c" and "is_digit d"
  shows "(c < d) = (digit_val c < digit_val d)"
  using assms by (auto simp: is_digit_iff digit_val_eq less_char_def)

lemma digit_eq:
  assumes "is_digit c" and "is_digit d"
  shows "(c = d) = (digit_val c = digit_val d)"
proof -
  have "(digit_val c = digit_val d) = ((of_char c :: nat) = of_char d)"
    using assms unfolding is_digit_iff digit_val_eq by linarith
  also have "\<dots> = (c = d)"
    by simp
  finally show ?thesis
    by (rule sym)
qed

lemma number_from_shift:
  "number_from n cs = n * 10 ^ length cs + number_from 0 cs"
proof (induction cs arbitrary: n)
  case Nil
  show ?case by simp
next
  case (Cons c cs)
  have "number_from n (c # cs) = number_from (10 * n + digit_val c) cs"
    by simp
  also have "\<dots> = (10 * n + digit_val c) * 10 ^ length cs + number_from 0 cs"
    by (rule Cons.IH)
  finally have a: "number_from n (c # cs) =
      (10 * n + digit_val c) * 10 ^ length cs + number_from 0 cs" .
  have "number_from 0 (c # cs) = number_from (digit_val c) cs"
    by simp
  also have "\<dots> = digit_val c * 10 ^ length cs + number_from 0 cs"
    by (rule Cons.IH)
  finally have b: "number_from 0 (c # cs) = digit_val c * 10 ^ length cs + number_from 0 cs" .
  show ?case
    unfolding a b by (simp add: algebra_simps)
qed

lemma number_Nil: "number [] = 0"
  by (simp add: number_def)

lemma number_Cons: "number (c # cs) = digit_val c * 10 ^ length cs + number cs"
  using number_from_shift [of "digit_val c" cs] by (simp add: number_def)

lemma number_less:
  "list_all is_digit cs \<Longrightarrow> number cs < 10 ^ length cs"
proof (induction cs)
  case Nil
  show ?case by (simp add: number_Nil)
next
  case (Cons c cs)
  then have "digit_val c \<le> 9" and small: "number cs < 10 ^ length cs"
    by (simp_all add: digit_val_le)
  then have "digit_val c * 10 ^ length cs \<le> 9 * 10 ^ length cs"
    by (intro mult_le_mono1)
  moreover have "(10::nat) ^ length (c # cs) = 10 * 10 ^ length cs"
    by simp
  ultimately show ?case
    unfolding number_Cons using small by linarith
qed

text \<open>Comparing two numbers written in a base, digit by digit.\<close>

lemma compare_positional:
  fixes d d' t t' B :: nat
  assumes "t < B" and "t' < B"
  shows "(d * B + t \<le> d' * B + t') = (d < d' \<or> d = d' \<and> t \<le> t')"
proof -
  consider "d < d'" | "d = d'" | "d' < d"
    by linarith
  then show ?thesis
  proof cases
    case 1
    then have "Suc d * B \<le> d' * B"
      by (intro mult_le_mono1) simp
    with assms 1 show ?thesis
      by simp
  next
    case 2
    then show ?thesis
      by simp
  next
    case 3
    then have "Suc d' * B \<le> d * B"
      by (intro mult_le_mono1) simp
    with assms 3 show ?thesis
      by simp
  qed
qed

lemma digits_le:
  assumes "length xs = length ys" and "list_all is_digit xs" and "list_all is_digit ys"
  shows "(xs \<le> ys) = (number xs \<le> number ys)"
  using assms
proof (induction xs ys rule: list_induct2)
  case Nil
  show ?case by simp
next
  case (Cons x xs y ys)
  from Cons.prems have d: "is_digit x" "is_digit y"
    and dx: "list_all is_digit xs" and dy: "list_all is_digit ys"
    by simp_all
  have b: "number xs < 10 ^ length xs" "number ys < 10 ^ length xs"
    using number_less [OF dx] number_less [OF dy] Cons.hyps by simp_all
  have ih: "(xs \<le> ys) = (number xs \<le> number ys)"
    using dx dy by (rule Cons.IH)
  have "(x # xs \<le> y # ys) = (x < y \<or> x = y \<and> xs \<le> ys)"
    by simp
  also have "\<dots> = (digit_val x < digit_val y \<or>
      digit_val x = digit_val y \<and> number xs \<le> number ys)"
    by (simp only: digit_less [OF d] digit_eq [OF d] ih)
  also have "\<dots> = (digit_val x * 10 ^ length xs + number xs
      \<le> digit_val y * 10 ^ length xs + number ys)"
    by (rule compare_positional [OF b, symmetric])
  finally show ?case
    by (simp add: number_Cons Cons.hyps)
qed

lemma digits_less:
  assumes "length xs = length ys" and "list_all is_digit xs" and "list_all is_digit ys"
  shows "(xs < ys) = (number xs < number ys)"
proof -
  have "(ys \<le> xs) = (number ys \<le> number xs)"
    using assms by (intro digits_le) simp_all
  then show ?thesis
    by (simp add: not_le [symmetric])
qed

lemma digits_eq:
  assumes "length xs = length ys" and "list_all is_digit xs" and "list_all is_digit ys"
  shows "(xs = ys) = (number xs = number ys)"
proof -
  have "(xs \<le> ys) = (number xs \<le> number ys)" and "(ys \<le> xs) = (number ys \<le> number xs)"
    using assms by (simp_all add: digits_le)
  then show ?thesis
    by (simp add: eq_iff [of xs ys] eq_iff [of "number xs" "number ys"])
qed

subsection \<open>Zero-padded labels: the order of the strings is the order of the periods\<close>

lemma lex_split:
  fixes c :: "'a::linorder"
  assumes "length ys = length ys'"
  shows "(ys @ c # ms \<le> ys' @ c # ms') = (ys < ys' \<or> ys = ys' \<and> ms \<le> ms')"
  using assms by (induction ys ys' rule: list_induct2) auto

lemma zero_padded_split:
  assumes "zero_padded_month s"
  shows "s = take 4 s @ CHR ''-'' # drop 5 s"
proof -
  from assms have "4 < length s" and "s ! 4 = CHR ''-''"
    by (simp_all add: zero_padded_month_def)
  with id_take_nth_drop [of 4 s] show ?thesis
    by simp
qed

lemma parse_zero_padded:
  assumes "zero_padded_month s"
  shows "spec_parse_period s = Some (number (take 4 s) * 12 + (number (drop 5 s) - 1))"
  using assms by (simp add: zero_padded_month_def spec_parse_period_def)

lemma label_order:
  assumes "zero_padded_month a" and "zero_padded_month b"
  shows "(a \<le> b) = (the (spec_parse_period a) \<le> the (spec_parse_period b))"
proof -
  let ?ya = "take 4 a" and ?ma = "drop 5 a" and ?yb = "take 4 b" and ?mb = "drop 5 b"
  from assms have len: "length ?ya = length ?yb" "length ?ma = length ?mb"
    and dy: "list_all is_digit ?ya" "list_all is_digit ?yb"
    and dm: "list_all is_digit ?ma" "list_all is_digit ?mb"
    and ra: "1 \<le> number ?ma" "number ?ma \<le> 12"
    and rb: "1 \<le> number ?mb" "number ?mb \<le> 12"
    by (simp_all add: zero_padded_month_def)
  have "(a \<le> b) = (?ya @ CHR ''-'' # ?ma \<le> ?yb @ CHR ''-'' # ?mb)"
    using zero_padded_split [OF assms(1)] zero_padded_split [OF assms(2)] by simp
  also have "\<dots> = (?ya < ?yb \<or> ?ya = ?yb \<and> ?ma \<le> ?mb)"
    using len(1) by (rule lex_split)
  also have "\<dots> = (number ?ya < number ?yb \<or>
      number ?ya = number ?yb \<and> number ?ma \<le> number ?mb)"
    by (simp only: digits_less [OF len(1) dy] digits_eq [OF len(1) dy]
        digits_le [OF len(2) dm])
  also have "\<dots> = (number ?ya < number ?yb \<or>
      number ?ya = number ?yb \<and> number ?ma - 1 \<le> number ?mb - 1)"
    using ra rb by auto
  also have "\<dots> = (number ?ya * 12 + (number ?ma - 1) \<le> number ?yb * 12 + (number ?mb - 1))"
    using ra rb by (intro compare_positional [symmetric]) simp_all
  finally show ?thesis
    by (simp add: parse_zero_padded [OF assms(1)] parse_zero_padded [OF assms(2)])
qed

lemma insort_key_agree:
  assumes "\<And>y. y \<in> set ys \<Longrightarrow> (x \<le> y) = (f x \<le> f y)"
  shows "insort_key f x ys = insort x ys"
  using assms by (induction ys) simp_all

lemma sort_key_agree:
  assumes "\<And>x y. x \<in> set xs \<Longrightarrow> y \<in> set xs \<Longrightarrow> (x \<le> y) = (f x \<le> f y)"
  shows "sort_key f xs = sort xs"
  using assms
proof (induction xs)
  case Nil
  show ?case by simp
next
  case (Cons x xs)
  then have "sort_key f xs = sort xs"
    by simp
  moreover have "insort_key f x (sort xs) = insort x (sort xs)"
    using Cons.prems by (intro insort_key_agree) simp
  ultimately show ?case
    by simp
qed

lemma set_unique: "set (unique xs) = set xs"
  by (simp add: unique_def)

text \<open>
  Claim C8. The month labels are ordered chronologically. For the labels of the form
  \<open>YYYY-MM\<close>, which are what the query produces, the months as the code orders them are
  the months sorted by their parsed period value, and the last three of them are the
  last three periods, across calendar-year boundaries as well: sorting the strings and
  sorting the parsed periods give the same lists.
\<close>

theorem months_chronological:
  assumes "list_all zero_padded_month col"
  shows "spec_months col = Some (months col) \<and>
         spec_last3months col = Some (last3months col)"
proof -
  have zp: "zero_padded_month s" if "s \<in> set col" for s
    using assms that by (simp add: list_all_iff)
  have "spec_parse_period s \<noteq> None" if "s \<in> set col" for s
    using parse_zero_padded [OF zp [OF that]] by simp
  then have parses: "list_all (\<lambda>s. spec_parse_period s \<noteq> None) col"
    by (simp add: list_all_iff)
  have "sort_key (\<lambda>s. the (spec_parse_period s)) (unique col) = sort (unique col)"
    by (rule sort_key_agree) (simp add: set_unique label_order zp)
  with parses have m: "spec_months col = Some (months col)"
    by (simp add: spec_months_def months_def)
  have "sort (months col) = months col"
    by (simp add: months_def sorted_sort_id)
  then have "last3months col = drop (length (months col) - 3) (months col)"
    by (simp add: last3months_def Let_def)
  with m show ?thesis
    by (simp add: spec_last3months_def)
qed

theorem months_chronological_witness:
  "list_all zero_padded_month [''2023-01'', ''2022-12'', ''2022-11'', ''2023-01'', ''2023-02''] \<and>
   months [''2023-01'', ''2022-12'', ''2022-11'', ''2023-01'', ''2023-02'']
     = [''2022-11'', ''2022-12'', ''2023-01'', ''2023-02''] \<and>
   spec_months [''2023-01'', ''2022-12'', ''2022-11'', ''2023-01'', ''2023-02'']
     = Some [''2022-11'', ''2022-12'', ''2023-01'', ''2023-02''] \<and>
   spec_last3months [''2023-01'', ''2022-12'', ''2022-11'', ''2023-01'', ''2023-02'']
     = Some [''2022-12'', ''2023-01'', ''2023-02'']"
proof -
  let ?col = "[''2023-01'', ''2022-12'', ''2022-11'', ''2023-01'', ''2023-02'']"
  have h: "list_all zero_padded_month ?col"
    by (simp add: zero_padded_month_def is_digit_def number_def digit_val_def)
  have m: "months ?col = [''2022-11'', ''2022-12'', ''2023-01'', ''2023-02'']"
    by (simp add: months_def unique_def)
  have l: "last3months ?col = [''2022-12'', ''2023-01'', ''2023-02'']"
    by (simp add: months_def unique_def last3months_def)
  from months_chronological [OF h] m l h show ?thesis
    by (simp only: simp_thms)
qed

text \<open>
  The form of the labels matters. A month written without its zero is not of that form,
  no \<open>DATE_FORMAT\<close> with \<open>%Y-%m\<close> prints it, and on such labels the order of the strings
  is not the order of the periods.
\<close>

lemma months_unpadded_label:
  "spec_parse_period ''2023-9'' = Some (2023 * 12 + 8) \<and>
   spec_parse_period ''2023-10'' = Some (2023 * 12 + 9) \<and>
   months [''2023-9'', ''2023-10''] = [''2023-10'', ''2023-9''] \<and>
   spec_months [''2023-9'', ''2023-10''] = Some [''2023-9'', ''2023-10''] \<and>
   \<not> zero_padded_month ''2023-9''"
  by (simp add: months_def spec_months_def unique_def spec_parse_period_def is_digit_def
      number_def digit_val_def zero_padded_month_def)

end
